theory Spec2Isabelle
  imports Complex_Main "HOL-Library.Word"
begin

section \<open>The Android localization stub (multiset\_stub.c)\<close>

subsection \<open>C values\<close>

text \<open>
  A C \<open>int\<close> is a 32-bit word, read as two's complement by \<open>sint\<close>. A \<open>float\<close> is
  carried as its IEEE-754 binary32 bit pattern; the stub never computes with floats, it only
  stores the zero a C initializer gives, which is positive zero, bit pattern \<open>0x00000000\<close>.
  A \<open>char\<close> is one byte. A \<open>const char*\<close> argument is \<open>None\<close> for the null pointer and
  otherwise the characters it points to; a \<open>void*\<close> buffer likewise, with bytes of any length
  (so a buffer that does not match \<open>width * height\<close> is an argument like any other).
\<close>

type_synonym c_int = "32 word"
type_synonym c_float = "32 word"
type_synonym c_char = "8 word"
type_synonym c_string = "c_char list option"
type_synonym c_buffer = "c_char list option"

subsection \<open>The result struct\<close>

text \<open>
  \<^verbatim>\<open>
  typedef struct {
    bool poseFound;
    float positionX, positionY, positionZ;
    float rotationX, rotationY, rotationZ, rotationW;
    int num_matches;
    char mapIds[1024];
    float confidence;
  } LocalizationResult;
  \<close>
  The array \<open>mapIds\<close> is a list of bytes; that it has exactly 1024 of them is the part of
  the declaration the record type does not say, kept in \<open>LocalizationResult_wf\<close>.
\<close>

record LocalizationResult =
  poseFound :: bool
  positionX :: c_float
  positionY :: c_float
  positionZ :: c_float
  rotationX :: c_float
  rotationY :: c_float
  rotationZ :: c_float
  rotationW :: c_float
  num_matches :: c_int
  mapIds :: "c_char list"
  confidence :: c_float

definition mapIds_capacity :: nat where
  "mapIds_capacity = 1024"

definition LocalizationResult_wf :: "LocalizationResult \<Rightarrow> bool" where
  "LocalizationResult_wf r = (length (mapIds r) = mapIds_capacity)"

text \<open>
  The text a \<open>char\<close> array holds, as C reads it: the bytes before the first NUL (all of
  them when there is none).
\<close>

definition c_text :: "c_char list \<Rightarrow> c_char list" where
  "c_text buf = takeWhile (\<lambda>c. c \<noteq> 0) buf"

subsection \<open>The entry points\<close>

text \<open>\<^verbatim>\<open>bool _LoadModels() { return false; }\<close>\<close>

definition LoadModels :: bool where
  "LoadModels = False"

text \<open>
  \<^verbatim>\<open>bool _LoadMaps(const char* dbDirPath, const char* mapIdentifier) { return false; }\<close>
\<close>

definition LoadMaps :: "c_string \<Rightarrow> c_string \<Rightarrow> bool" where
  "LoadMaps dbDirPath mapIdentifier = False"

text \<open>
  \<^verbatim>\<open>
  LocalizationResult _Localize(
    const char* mapCode, const char* mapSetCode,
    bool isRightHanded, bool convertToGeoCoordinates,
    float fx, float fy, float px, float py,
    void* imageData, int width, int height,
    const char* hintMapCodes, const char* hintPosition, const char* geoCoordinates) {
    LocalizationResult result = {0};
    return result;
  }
  \<close>
  The initializer \<open>{0}\<close> sets the first member, \<open>poseFound\<close>, to \<open>0\<close>, which is \<open>false\<close>;
  every member without an initializer is initialized as an object of static storage is:
  arithmetic members to zero, the array member element by element.
\<close>

definition Localize ::
  "c_string \<Rightarrow> c_string \<Rightarrow> bool \<Rightarrow> bool \<Rightarrow> c_float \<Rightarrow> c_float \<Rightarrow> c_float \<Rightarrow> c_float \<Rightarrow>
   c_buffer \<Rightarrow> c_int \<Rightarrow> c_int \<Rightarrow> c_string \<Rightarrow> c_string \<Rightarrow> c_string \<Rightarrow> LocalizationResult" where
  "Localize mapCode mapSetCode isRightHanded convertToGeoCoordinates fx fy px py
     imageData width height hintMapCodes hintPosition geoCoordinates =
   (let result = \<lparr>poseFound = False,
                  positionX = 0, positionY = 0, positionZ = 0,
                  rotationX = 0, rotationY = 0, rotationZ = 0, rotationW = 0,
                  num_matches = 0,
                  mapIds = replicate 1024 0,
                  confidence = 0\<rparr>
    in result)"

section \<open>The iOS upload helper (BackgroundUploader.h)\<close>

subsection \<open>The declared interface\<close>

text \<open>
  The header declares one class and five methods and defines none of them:
  \<^verbatim>\<open>
  @interface BackgroundUploader : NSObject
  + (instancetype)sharedInstance;
  - (int)startBackgroundUpload:(NSString *)filePath toURL:(NSString *)uploadURL
                   contentType:(NSString *)contentType;
  - (float)getUploadProgress:(int)uploadId;
  - (void)cancelUpload:(int)uploadId;
  - (void)setupCompletionCallback:(void (*)(int, BOOL, const char *))callback;
  @end
  \<close>
  What the header fixes is the types, so the declarations are kept as data: the types
  that occur in them, and per method its kind, result type, selector and parameters.
\<close>

datatype objc_type =
    T_void
  | T_int
  | T_float
  | T_char
  | T_BOOL
  | T_instancetype
  | T_NSString
  | T_const objc_type
  | T_pointer objc_type
  | T_function "objc_type list" objc_type

datatype method_kind = ClassMethod | InstanceMethod

record method_decl =
  kind :: method_kind
  result_type :: objc_type
  selector :: string
  parameters :: "(objc_type \<times> string) list"

definition BackgroundUploader_interface :: "method_decl list" where
  "BackgroundUploader_interface =
    [\<lparr>kind = ClassMethod, result_type = T_instancetype,
      selector = ''sharedInstance'', parameters = []\<rparr>,
     \<lparr>kind = InstanceMethod, result_type = T_int,
      selector = ''startBackgroundUpload:toURL:contentType:'',
      parameters = [(T_pointer T_NSString, ''filePath''),
                    (T_pointer T_NSString, ''uploadURL''),
                    (T_pointer T_NSString, ''contentType'')]\<rparr>,
     \<lparr>kind = InstanceMethod, result_type = T_float,
      selector = ''getUploadProgress:'', parameters = [(T_int, ''uploadId'')]\<rparr>,
     \<lparr>kind = InstanceMethod, result_type = T_void,
      selector = ''cancelUpload:'', parameters = [(T_int, ''uploadId'')]\<rparr>,
     \<lparr>kind = InstanceMethod, result_type = T_void,
      selector = ''setupCompletionCallback:'',
      parameters = [(T_pointer (T_function [T_int, T_BOOL, T_pointer (T_const T_char)] T_void),
                     ''callback'')]\<rparr>]"

fun lookup_method :: "string \<Rightarrow> method_decl list \<Rightarrow> method_decl option" where
  "lookup_method sel [] = None"
| "lookup_method sel (m # ms) = (if selector m = sel then Some m else lookup_method sel ms)"

text \<open>
  A callback is passed as a pointer to a function; its shape is the function's parameter
  types and result type.
\<close>

fun callback_shape :: "objc_type \<Rightarrow> (objc_type list \<times> objc_type) option" where
  "callback_shape (T_pointer (T_function args res)) = Some (args, res)"
| "callback_shape _ = None"

subsection \<open>The upload coordinator behind the interface\<close>

text \<open>
  The method bodies (BackgroundUploader.m) are not among the sources. The definitions of
  this subsection are therefore written from the specification of the upload coordinator,
  each marked as such.
\<close>

text \<open>
  Modelled from the spec: the states of one upload, missing with the implementation.
  "State machine per upload: Pending -> InProgress -> {Succeeded, Failed, Cancelled}."
\<close>

datatype upload_state = Pending | InProgress | Succeeded | Failed | Cancelled

text \<open>
  Modelled from the spec: which states are terminal, missing with the implementation.
  "Terminal state: an upload state (succeeded/failed/cancelled) after which no further
  transitions occur."
\<close>

fun is_terminal :: "upload_state \<Rightarrow> bool" where
  "is_terminal Succeeded = True"
| "is_terminal Failed = True"
| "is_terminal Cancelled = True"
| "is_terminal Pending = False"
| "is_terminal InProgress = False"

text \<open>
  Modelled from the spec: the record of one upload, missing with the implementation.
  "A source file path, a destination endpoint, a content-type label, a progress fraction
  in [0.0, 1.0], a terminal outcome." The integer identifier is the key under which the
  coordinator keeps the task. The fraction is a real number.
\<close>

record UploadTask =
  filePath :: string
  uploadURL :: string
  contentType :: string
  progress :: real
  state :: upload_state

text \<open>
  Modelled from the spec: one invocation of the completion callback, missing with the
  implementation. The callback is a C function pointer, kept as its address; an invocation
  passes "the id, a success flag, and an optional error message".
\<close>

type_synonym callback_ptr = nat

record callback_call =
  handler :: callback_ptr
  call_id :: int
  call_success :: bool
  call_message :: "string option"

text \<open>
  Modelled from the spec: the coordinator's state, missing with the implementation: the
  "shared upload-registry (id -> UploadTask)", the next identifier to hand out, the one
  registered callback ("registers exactly one process-wide callback", none before the first
  registration or after registering the null pointer), and the invocations of callbacks made
  so far, oldest first. Identifiers are mathematical integers and are never handed out
  twice; the spec does not say what happens when C's \<open>int\<close> runs out. A task that
  reaches a terminal state stays in the registry ("destroyed (or archived)": archived).
\<close>

record BackgroundUploader =
  tasks :: "int \<rightharpoonup> UploadTask"
  next_id :: int
  completion_callback :: "callback_ptr option"
  delivered :: "callback_call list"

text \<open>
  Modelled from the spec: what the host decides, missing with the implementation:
  \<open>startUpload\<close> "validates that filePath exists and is readable and that uploadURL is
  well-formed".
\<close>

record host =
  file_readable :: "string \<Rightarrow> bool"
  url_well_formed :: "string \<Rightarrow> bool"

text \<open>
  Modelled from the spec: the identifier \<open>startUpload\<close> returns when validation fails
  ("a sentinel/error indicator") and the fraction \<open>getProgress\<close> returns for an unknown or
  completed id ("a defined sentinel (e.g. negative value)"). The spec names no values; both
  are taken to be \<open>-1\<close>.
\<close>

definition invalid_upload_id :: int where
  "invalid_upload_id = - 1"

definition progress_sentinel :: real where
  "progress_sentinel = - 1"

text \<open>
  Modelled from the spec: \<open>sharedInstance\<close>, missing with the implementation, as the state
  the singleton has when first accessed: no upload tracked, no callback registered. The
  first identifier is 1 (the spec's scenario: the first \<open>startUpload\<close> "returns id 1").
\<close>

definition sharedInstance :: BackgroundUploader where
  "sharedInstance = \<lparr>tasks = Map.empty, next_id = 1, completion_callback = None, delivered = []\<rparr>"

text \<open>
  Modelled from the spec: \<open>startBackgroundUpload:toURL:contentType:\<close>, missing with the
  implementation. It "validates ...; enqueues a background transfer; returns a newly
  allocated identifier, or a sentinel/error indicator if validation fails". The result is
  the returned identifier and the coordinator afterwards.
\<close>

definition startBackgroundUpload ::
  "host \<Rightarrow> BackgroundUploader \<Rightarrow> string \<Rightarrow> string \<Rightarrow> string \<Rightarrow> int \<times> BackgroundUploader" where
  "startBackgroundUpload h s path url ctype =
    (if file_readable h path \<and> url_well_formed h url
     then (next_id s,
           s\<lparr>tasks := (tasks s)(next_id s \<mapsto>
                 \<lparr>filePath = path, uploadURL = url, contentType = ctype,
                  progress = 0, state = Pending\<rparr>),
             next_id := next_id s + 1\<rparr>)
     else (invalid_upload_id, s))"

text \<open>
  Modelled from the spec: \<open>getUploadProgress:\<close>, missing with the implementation. It
  "returns current progress for a known id; returns a defined sentinel (e.g. negative value)
  for an unknown or already-completed id".
\<close>

definition getUploadProgress :: "BackgroundUploader \<Rightarrow> int \<Rightarrow> real" where
  "getUploadProgress s i =
    (case tasks s i of
       None \<Rightarrow> progress_sentinel
     | Some t \<Rightarrow> if is_terminal (state t) then progress_sentinel else progress t)"

text \<open>
  Modelled from the spec: the delivery of a terminal outcome, missing with the
  implementation: the registered callback is invoked with "the id, a success flag, and an
  optional error message". With no callback registered the outcome is dropped (the spec
  leaves open whether it is buffered or dropped).
\<close>

definition deliver :: "BackgroundUploader \<Rightarrow> int \<Rightarrow> bool \<Rightarrow> string option \<Rightarrow> BackgroundUploader" where
  "deliver s i ok msg =
    (case completion_callback s of
       None \<Rightarrow> s
     | Some cb \<Rightarrow>
         s\<lparr>delivered := delivered s @
             [\<lparr>handler = cb, call_id = i, call_success = ok, call_message = msg\<rparr>]\<rparr>)"

text \<open>
  Modelled from the spec: \<open>cancelUpload:\<close>, missing with the implementation. It "requests
  cancellation; safe to call on an unknown or already-terminal id (no-op)". An upload that is
  pending or in progress becomes cancelled, and that outcome is delivered as a failure
  without a message.
\<close>

definition cancelUpload :: "BackgroundUploader \<Rightarrow> int \<Rightarrow> BackgroundUploader" where
  "cancelUpload s i =
    (case tasks s i of
       None \<Rightarrow> s
     | Some t \<Rightarrow>
         if is_terminal (state t) then s
         else deliver (s\<lparr>tasks := (tasks s)(i \<mapsto> t\<lparr>state := Cancelled\<rparr>)\<rparr>) i False None)"

text \<open>
  Modelled from the spec: \<open>setupCompletionCallback:\<close>, missing with the implementation.
  "Must tolerate being set before, during, or after uploads are in flight; last registration
  wins."
\<close>

definition setupCompletionCallback ::
  "BackgroundUploader \<Rightarrow> callback_ptr option \<Rightarrow> BackgroundUploader" where
  "setupCompletionCallback s cb = s\<lparr>completion_callback := cb\<rparr>"

text \<open>
  Modelled from the spec: what the transfer subsystem does to a tracked upload, missing with
  the implementation ("mutated by the underlying transfer subsystem as bytes move"): it
  starts a pending upload, moves the progress fraction of an upload in progress (kept within
  [0, 1]), and ends an upload in progress as succeeded or failed, which is delivered with the
  subsystem's message. A report for an upload that is not in the state it applies to is
  ignored.
\<close>

definition transferBegan :: "BackgroundUploader \<Rightarrow> int \<Rightarrow> BackgroundUploader" where
  "transferBegan s i =
    (case tasks s i of
       None \<Rightarrow> s
     | Some t \<Rightarrow>
         if state t = Pending then s\<lparr>tasks := (tasks s)(i \<mapsto> t\<lparr>state := InProgress\<rparr>)\<rparr>
         else s)"

definition transferProgress :: "BackgroundUploader \<Rightarrow> int \<Rightarrow> real \<Rightarrow> BackgroundUploader" where
  "transferProgress s i p =
    (case tasks s i of
       None \<Rightarrow> s
     | Some t \<Rightarrow>
         if state t = InProgress
         then s\<lparr>tasks := (tasks s)(i \<mapsto> t\<lparr>progress := max 0 (min 1 p)\<rparr>)\<rparr>
         else s)"

definition transferCompleted ::
  "BackgroundUploader \<Rightarrow> int \<Rightarrow> bool \<Rightarrow> string option \<Rightarrow> BackgroundUploader" where
  "transferCompleted s i ok msg =
    (case tasks s i of
       None \<Rightarrow> s
     | Some t \<Rightarrow>
         if state t = InProgress
         then deliver
                (s\<lparr>tasks := (tasks s)(i \<mapsto> t\<lparr>state := (if ok then Succeeded else Failed)\<rparr>)\<rparr>)
                i ok msg
         else s)"

text \<open>
  Modelled from the spec: the life of the coordinator, missing with the implementation, as
  a sequence of events: the calls of the host application and the reports of the transfer
  subsystem, in the order the registry's lock serializes them. \<open>step\<close> gives the
  coordinator after one event and the identifiers the event returned to the caller; \<open>run\<close>
  and \<open>returned_ids\<close> follow a whole sequence.
\<close>

datatype event =
    StartBackgroundUpload string string string
  | GetUploadProgress int
  | CancelUpload int
  | SetupCompletionCallback "callback_ptr option"
  | TransferBegan int
  | TransferProgress int real
  | TransferCompleted int bool "string option"

fun step :: "host \<Rightarrow> BackgroundUploader \<Rightarrow> event \<Rightarrow> BackgroundUploader" where
  "step h s (StartBackgroundUpload path url ctype) = snd (startBackgroundUpload h s path url ctype)"
| "step h s (GetUploadProgress i) = s"
| "step h s (CancelUpload i) = cancelUpload s i"
| "step h s (SetupCompletionCallback cb) = setupCompletionCallback s cb"
| "step h s (TransferBegan i) = transferBegan s i"
| "step h s (TransferProgress i p) = transferProgress s i p"
| "step h s (TransferCompleted i ok msg) = transferCompleted s i ok msg"

fun step_returned :: "host \<Rightarrow> BackgroundUploader \<Rightarrow> event \<Rightarrow> int list" where
  "step_returned h s (StartBackgroundUpload path url ctype) =
     [fst (startBackgroundUpload h s path url ctype)]"
| "step_returned h s _ = []"

fun run :: "host \<Rightarrow> BackgroundUploader \<Rightarrow> event list \<Rightarrow> BackgroundUploader" where
  "run h s [] = s"
| "run h s (e # es) = run h (step h s e) es"

fun returned_ids :: "host \<Rightarrow> BackgroundUploader \<Rightarrow> event list \<Rightarrow> int list" where
  "returned_ids h s [] = []"
| "returned_ids h s (e # es) = step_returned h s e @ returned_ids h (step h s e) es"

text \<open>The callback invocations made for one upload id, oldest first.\<close>

definition delivered_for :: "BackgroundUploader \<Rightarrow> int \<Rightarrow> callback_call list" where
  "delivered_for s i = filter (\<lambda>c. call_id c = i) (delivered s)"

text \<open>
  Identifiers are handed out in increasing order: every tracked id is below the next one.
\<close>

definition ids_below_next :: "BackgroundUploader \<Rightarrow> bool" where
  "ids_below_next s = (\<forall>i. i \<in> dom (tasks s) \<longrightarrow> i < next_id s)"

subsection \<open>A sample run\<close>

text \<open>
  After the spec's scenario: on a host that accepts every path and URL, a callback is
  registered, "/tmp/a.bin" is uploaded under id 1 and succeeds at half-reported progress
  (\<open>finished_trace\<close>, leaving \<open>finished_task\<close>); then cancellation and late reports arrive
  for id 1 while a second upload is started and cancelled (\<open>late_trace\<close>).
\<close>

definition accepting_host :: host where
  "accepting_host = \<lparr>file_readable = (\<lambda>p. True), url_well_formed = (\<lambda>u. True)\<rparr>"

definition finished_trace :: "event list" where
  "finished_trace =
    [SetupCompletionCallback (Some 7),
     StartBackgroundUpload ''/tmp/a.bin'' ''https://x/y'' ''application/octet-stream'',
     TransferBegan 1,
     TransferProgress 1 (1 / 2),
     TransferCompleted 1 True None]"

definition finished_task :: UploadTask where
  "finished_task =
    \<lparr>filePath = ''/tmp/a.bin'', uploadURL = ''https://x/y'',
     contentType = ''application/octet-stream'', progress = 1 / 2, state = Succeeded\<rparr>"

definition late_trace :: "event list" where
  "late_trace =
    [CancelUpload 1,
     TransferProgress 1 (3 / 4),
     TransferCompleted 1 False (Some ''late''),
     TransferBegan 1,
     StartBackgroundUpload ''/tmp/b.bin'' ''https://x/y'' ''text/plain'',
     CancelUpload 2]"

section \<open>Properties of the localization stub\<close>

text \<open>
  C1. Whatever the map codes, flags, intrinsics, image buffer, dimensions and hint strings,
  \<open>_Localize\<close> returns a result whose \<open>poseFound\<close> is false.
\<close>

theorem Localize_never_finds_pose:
  "poseFound (Localize mapCode mapSetCode isRightHanded convertToGeoCoordinates fx fy px py
     imageData width height hintMapCodes hintPosition geoCoordinates) = False"
  by (simp add: Localize_def)

text \<open>
  C2. \<open>_Localize\<close> has no failing path: for every argument, the null image buffer and
  buffers and dimensions of any size included, it returns a result record, and the record is
  well formed (its \<open>mapIds\<close> array has the declared 1024 bytes).
\<close>

theorem Localize_total_wf:
  "\<exists>r. Localize mapCode mapSetCode isRightHanded convertToGeoCoordinates fx fy px py
          imageData width height hintMapCodes hintPosition geoCoordinates = r
       \<and> LocalizationResult_wf r"
  by (simp add: Localize_def LocalizationResult_wf_def mapIds_capacity_def)

text \<open>
  C3. If the result of \<open>_Localize\<close> has \<open>poseFound\<close> false, then its three position
  fields, its four rotation fields and its confidence are zero.
\<close>

theorem Localize_not_found_zeroed:
  "(let r = Localize mapCode mapSetCode isRightHanded convertToGeoCoordinates fx fy px py
              imageData width height hintMapCodes hintPosition geoCoordinates
    in poseFound r = False \<longrightarrow>
         positionX r = 0 \<and> positionY r = 0 \<and> positionZ r = 0 \<and>
         rotationX r = 0 \<and> rotationY r = 0 \<and> rotationZ r = 0 \<and> rotationW r = 0 \<and>
         confidence r = 0)"
  by (simp add: Localize_def)

text \<open>
  The same at one call: map code "M1", no map set, focal lengths 512.0, principal point
  (320.0, 240.0), a three-byte buffer passed as a 640 x 480 image, no hints.
\<close>

theorem Localize_not_found_zeroed_witness:
  "(let r = Localize (Some [77, 49, 0]) None True False 0x44000000 0x44000000 0x43A00000 0x43700000
              (Some [1, 2, 3]) 640 480 None None None
    in poseFound r = False \<and>
         positionX r = 0 \<and> positionY r = 0 \<and> positionZ r = 0 \<and>
         rotationX r = 0 \<and> rotationY r = 0 \<and> rotationZ r = 0 \<and> rotationW r = 0 \<and>
         confidence r = 0)"
proof -
  let ?r = "Localize (Some [77, 49, 0]) None True False 0x44000000 0x44000000 0x43A00000 0x43700000
              (Some [1, 2, 3]) 640 480 None None None"
  have not_found: "poseFound ?r = False"
    by (simp add: Localize_def)
  from Localize_not_found_zeroed [of "Some [77, 49, 0]" None True False "0x44000000" "0x44000000"
      "0x43A00000" "0x43700000" "Some [1, 2, 3]" 640 480 None None None] not_found
  show ?thesis
    by (simp add: Let_def)
qed

text \<open>
  C4. \<open>_LoadModels\<close> returns false, and \<open>_LoadMaps\<close> returns false for every directory
  path and map identifier (a path that names no file is a path like any other, and so is the
  null pointer). The result is a \<open>bool\<close> and nothing else.
\<close>

theorem Load_always_false:
  "LoadModels = False \<and> LoadMaps dbDirPath mapIdentifier = False"
  by (simp add: LoadModels_def LoadMaps_def)

text \<open>
  C5. The \<open>mapIds\<close> field of every result of \<open>_Localize\<close> has the fixed capacity of 1024
  bytes, and the text it holds is no longer than that capacity.
\<close>

theorem Localize_mapIds_capacity:
  "(let r = Localize mapCode mapSetCode isRightHanded convertToGeoCoordinates fx fy px py
              imageData width height hintMapCodes hintPosition geoCoordinates
    in length (mapIds r) = 1024 \<and> mapIds_capacity = 1024 \<and>
       length (c_text (mapIds r)) \<le> mapIds_capacity)"
  by (simp add: Localize_def mapIds_capacity_def c_text_def)

text \<open>
  C9. The result of \<open>_Localize\<close> does not depend on its arguments: any two calls return
  equal records.
\<close>

theorem Localize_ignores_inputs:
  "Localize mapCode mapSetCode isRightHanded convertToGeoCoordinates fx fy px py
     imageData width height hintMapCodes hintPosition geoCoordinates =
   Localize mapCode' mapSetCode' isRightHanded' convertToGeoCoordinates' fx' fy' px' py'
     imageData' width' height' hintMapCodes' hintPosition' geoCoordinates'"
  by (simp add: Localize_def)

text \<open>
  C10. The result of \<open>_Localize\<close> is the zero record, all eleven members of it:
  \<open>poseFound\<close> is false, \<open>num_matches\<close> is 0, \<open>mapIds\<close> is 1024 zero bytes and so holds
  the empty string, and the position, rotation and confidence fields are zero.
\<close>

theorem Localize_all_zero:
  "(let r = Localize mapCode mapSetCode isRightHanded convertToGeoCoordinates fx fy px py
              imageData width height hintMapCodes hintPosition geoCoordinates
    in r = \<lparr>poseFound = False,
             positionX = 0, positionY = 0, positionZ = 0,
             rotationX = 0, rotationY = 0, rotationZ = 0, rotationW = 0,
             num_matches = 0, mapIds = replicate 1024 0, confidence = 0\<rparr> \<and>
       poseFound r = False \<and>
       num_matches r = 0 \<and>
       mapIds r = replicate 1024 0 \<and> c_text (mapIds r) = [] \<and>
       positionX r = 0 \<and> positionY r = 0 \<and> positionZ r = 0 \<and>
       rotationX r = 0 \<and> rotationY r = 0 \<and> rotationZ r = 0 \<and> rotationW r = 0 \<and>
       confidence r = 0)"
  by (simp add: Localize_def c_text_def)

section \<open>Properties of the upload helper\<close>

subsection \<open>The declared callback type\<close>

text \<open>
  C8. The one parameter of \<open>setupCompletionCallback:\<close> is a pointer to a function of an
  \<open>int\<close> (the upload id), a \<open>BOOL\<close> (the success flag) and a \<open>const char *\<close> (the message,
  which may be null), returning \<open>void\<close>.
\<close>

theorem completion_callback_shape:
  "map_option (map (callback_shape \<circ> fst) \<circ> parameters)
     (lookup_method ''setupCompletionCallback:'' BackgroundUploader_interface)
     = Some [Some ([T_int, T_BOOL, T_pointer (T_const T_char)], T_void)]"
  by (simp add: BackgroundUploader_interface_def)

subsection \<open>The coordinator: what an event leaves alone\<close>

lemma tasks_deliver: "tasks (deliver s j ok msg) = tasks s"
  by (simp add: deliver_def split: option.split)

lemma next_id_deliver: "next_id (deliver s j ok msg) = next_id s"
  by (simp add: deliver_def split: option.split)

lemma delivered_for_deliver_other:
  "j \<noteq> i \<Longrightarrow> delivered_for (deliver s j ok msg) i = delivered_for s i"
  by (simp add: deliver_def delivered_for_def split: option.split)

lemma delivered_for_tasks_update:
  "delivered_for (s\<lparr>tasks := m\<rparr>) i = delivered_for s i"
  by (simp add: delivered_for_def)

lemma ids_below_next_sharedInstance: "ids_below_next sharedInstance"
  by (simp add: ids_below_next_def sharedInstance_def)

lemma ids_below_next_step:
  assumes "ids_below_next s"
  shows "ids_below_next (step h s e)"
proof (cases e)
  case (StartBackgroundUpload path url ctype)
  with assms show ?thesis
    by (fastforce simp: ids_below_next_def startBackgroundUpload_def)
next
  case (GetUploadProgress j)
  with assms show ?thesis by simp
next
  case (CancelUpload j)
  with assms show ?thesis
    by (auto simp: ids_below_next_def cancelUpload_def tasks_deliver next_id_deliver
        split: option.splits if_splits)
next
  case (SetupCompletionCallback cb)
  with assms show ?thesis
    by (simp add: ids_below_next_def setupCompletionCallback_def)
next
  case (TransferBegan j)
  with assms show ?thesis
    by (auto simp: ids_below_next_def transferBegan_def split: option.splits if_splits)
next
  case (TransferProgress j p)
  with assms show ?thesis
    by (auto simp: ids_below_next_def transferProgress_def split: option.splits if_splits)
next
  case (TransferCompleted j ok msg)
  with assms show ?thesis
    by (auto simp: ids_below_next_def transferCompleted_def tasks_deliver next_id_deliver
        split: option.splits if_splits)
qed

lemma ids_below_next_run: "ids_below_next s \<Longrightarrow> ids_below_next (run h s es)"
  by (induction es arbitrary: s) (simp_all add: ids_below_next_step)

lemma cancelUpload_terminal:
  "tasks s i = Some t \<Longrightarrow> is_terminal (state t) \<Longrightarrow> cancelUpload s i = s"
  by (simp add: cancelUpload_def)

lemma step_keeps_terminal:
  assumes inv: "ids_below_next s"
    and t: "tasks s i = Some t"
    and fin: "is_terminal (state t)"
  shows "tasks (step h s e) i = Some t \<and> delivered_for (step h s e) i = delivered_for s i"
proof (cases e)
  case (StartBackgroundUpload path url ctype)
  from inv t have "i < next_id s"
    by (auto simp: ids_below_next_def)
  with t StartBackgroundUpload show ?thesis
    by (simp add: startBackgroundUpload_def delivered_for_def)
next
  case (GetUploadProgress j)
  with t show ?thesis by simp
next
  case (CancelUpload j)
  show ?thesis
  proof (cases "j = i")
    case True
    with t fin CancelUpload show ?thesis
      by (simp add: cancelUpload_terminal)
  next
    case False
    with t CancelUpload show ?thesis
      by (simp add: cancelUpload_def tasks_deliver delivered_for_deliver_other
          delivered_for_tasks_update split: option.split)
  qed
next
  case (SetupCompletionCallback cb)
  with t show ?thesis
    by (simp add: setupCompletionCallback_def delivered_for_def)
next
  case (TransferBegan j)
  with t fin show ?thesis
    by (cases "j = i") (auto simp: transferBegan_def delivered_for_def split: option.split)
next
  case (TransferProgress j p)
  with t fin show ?thesis
    by (cases "j = i") (auto simp: transferProgress_def delivered_for_def split: option.split)
next
  case (TransferCompleted j ok msg)
  show ?thesis
  proof (cases "j = i")
    case True
    with t fin TransferCompleted show ?thesis
      by (auto simp: transferCompleted_def)
  next
    case False
    with t TransferCompleted show ?thesis
      by (simp add: transferCompleted_def tasks_deliver delivered_for_deliver_other
          delivered_for_tasks_update split: option.split)
  qed
qed

lemma run_keeps_terminal:
  "ids_below_next s \<Longrightarrow> tasks s i = Some t \<Longrightarrow> is_terminal (state t) \<Longrightarrow>
   tasks (run h s es) i = Some t \<and> delivered_for (run h s es) i = delivered_for s i"
proof (induction es arbitrary: s)
  case Nil
  then show ?case by simp
next
  case (Cons e es)
  from step_keeps_terminal [OF Cons.prems]
  have keep: "tasks (step h s e) i = Some t"
    and same: "delivered_for (step h s e) i = delivered_for s i"
    by simp_all
  from Cons.IH [OF ids_below_next_step [OF Cons.prems(1)] keep Cons.prems(3)] same
  show ?case by simp
qed


subsection \<open>The sample run, evaluated\<close>

lemma run_finished_trace:
  "run accepting_host sharedInstance finished_trace =
    \<lparr>tasks = [1 \<mapsto> finished_task], next_id = 2, completion_callback = Some 7,
     delivered = [\<lparr>handler = 7, call_id = 1, call_success = True, call_message = None\<rparr>]\<rparr>"
  by (simp add: finished_trace_def accepting_host_def sharedInstance_def finished_task_def
      setupCompletionCallback_def startBackgroundUpload_def transferBegan_def
      transferProgress_def transferCompleted_def deliver_def)

subsection \<open>Terminal states\<close>

text \<open>
  C6. Take any upload that has reached a terminal state (succeeded, failed or cancelled) in
  a coordinator that grew from the initial one. Whatever events follow (calls of the
  application, reports of the transfer subsystem), the upload's task, and with it its state
  and its progress, stays as it is, and no callback is invoked for its id again; and
  \<open>cancelUpload\<close> on that id leaves the whole coordinator as it is.
\<close>

theorem terminal_state_absorbing:
  assumes reach: "s = run h sharedInstance before"
    and t: "tasks s i = Some t"
    and fin: "is_terminal (state t)"
  shows "tasks (run h s after) i = Some t
       \<and> delivered_for (run h s after) i = delivered_for s i
       \<and> cancelUpload (run h s after) i = run h s after"
proof -
  have inv: "ids_below_next s"
    unfolding reach by (rule ids_below_next_run [OF ids_below_next_sharedInstance])
  from run_keeps_terminal [OF inv t fin, of h after]
  have keep: "tasks (run h s after) i = Some t"
    and same: "delivered_for (run h s after) i = delivered_for s i"
    by simp_all
  from cancelUpload_terminal [OF keep fin] keep same show ?thesis
    by simp
qed


text \<open>
  The sample run: id 1 has succeeded and its callback was invoked once; after the late
  events that one invocation is still the only one.
\<close>

theorem terminal_state_absorbing_witness:
  "tasks (run accepting_host sharedInstance finished_trace) 1 = Some finished_task
   \<and> is_terminal (state finished_task)
   \<and> tasks (run accepting_host (run accepting_host sharedInstance finished_trace) late_trace) 1
       = Some finished_task
   \<and> delivered_for (run accepting_host (run accepting_host sharedInstance finished_trace) late_trace) 1
       = [\<lparr>handler = 7, call_id = 1, call_success = True, call_message = None\<rparr>]
   \<and> cancelUpload (run accepting_host (run accepting_host sharedInstance finished_trace) late_trace) 1
       = run accepting_host (run accepting_host sharedInstance finished_trace) late_trace"
proof -
  have t: "tasks (run accepting_host sharedInstance finished_trace) 1 = Some finished_task"
    by (simp add: run_finished_trace)
  have fin: "is_terminal (state finished_task)"
    by (simp add: finished_task_def)
  have before: "delivered_for (run accepting_host sharedInstance finished_trace) 1
      = [\<lparr>handler = 7, call_id = 1, call_success = True, call_message = None\<rparr>]"
    by (simp add: run_finished_trace delivered_for_def)
  from terminal_state_absorbing [OF refl t fin, of late_trace]
  have after: "tasks (run accepting_host (run accepting_host sharedInstance finished_trace) late_trace) 1
       = Some finished_task
   \<and> delivered_for (run accepting_host (run accepting_host sharedInstance finished_trace) late_trace) 1
       = delivered_for (run accepting_host sharedInstance finished_trace) 1
   \<and> cancelUpload (run accepting_host (run accepting_host sharedInstance finished_trace) late_trace) 1
       = run accepting_host (run accepting_host sharedInstance finished_trace) late_trace" .
  from after t fin show ?thesis
    unfolding before by blast
qed

subsection \<open>Unknown identifiers\<close>

lemma dom_tasks_step:
  "dom (tasks (step h s e)) \<subseteq> dom (tasks s) \<union> set (step_returned h s e)"
  by (cases e)
    (auto simp: startBackgroundUpload_def cancelUpload_def setupCompletionCallback_def
      transferBegan_def transferProgress_def transferCompleted_def tasks_deliver
      split: option.splits if_splits)

lemma dom_tasks_run:
  "dom (tasks (run h s es)) \<subseteq> dom (tasks s) \<union> set (returned_ids h s es)"
proof (induction es arbitrary: s)
  case Nil
  show ?case by simp
next
  case (Cons e es)
  from Cons.IH [of "step h s e"] dom_tasks_step [of h s e]
  show ?case by auto
qed


text \<open>
  C7. For an id that no \<open>startBackgroundUpload\<close> has returned, in any coordinator that
  grew from the initial one, \<open>getUploadProgress\<close> returns the sentinel, and the sentinel is
  negative, so it is no progress fraction.
\<close>

theorem unknown_id_progress_sentinel:
  assumes "i \<notin> set (returned_ids h sharedInstance es)"
  shows "getUploadProgress (run h sharedInstance es) i = progress_sentinel
       \<and> progress_sentinel < 0"
proof -
  from dom_tasks_run [of h sharedInstance es] assms
  have "i \<notin> dom (tasks (run h sharedInstance es))"
    by (auto simp: sharedInstance_def)
  then have "tasks (run h sharedInstance es) i = None"
    by auto
  then show ?thesis
    by (simp add: getUploadProgress_def progress_sentinel_def)
qed

text \<open>The sample run: only id 1 was returned, and id 2 reads as the sentinel.\<close>

theorem unknown_id_progress_sentinel_witness:
  "2 \<notin> set (returned_ids accepting_host sharedInstance finished_trace)
   \<and> getUploadProgress (run accepting_host sharedInstance finished_trace) 2 = - 1
   \<and> progress_sentinel < 0"
proof -
  have unknown: "2 \<notin> set (returned_ids accepting_host sharedInstance finished_trace)"
    by (simp add: finished_trace_def accepting_host_def sharedInstance_def
        setupCompletionCallback_def startBackgroundUpload_def)
  from unknown_id_progress_sentinel [OF unknown] unknown
  show ?thesis by (simp add: progress_sentinel_def)
qed

end
